theory Spec2Isabelle
  imports Complex_Main
begin

section \<open>JavaScript numbers\<close>

text \<open>
  The program is \<^verbatim>\<open>lib/node-progress.js\<close>. Its counters, widths and times are
  JavaScript numbers. A number is modelled as not-a-number, one of the two
  infinities, or a finite value. Finite values are exact rationals: the rounding of
  double arithmetic, overflow to an infinity and the sign of zero are not modelled.
  Everything the program decides by comparing numbers, by \<^verbatim>\<open>isNaN\<close> and by
  \<^verbatim>\<open>isFinite\<close> is modelled with the outcome ECMAScript gives on these values.
\<close>

datatype jsnum = NaN | PInf | NInf | Fin rat

definition js_isNaN :: "jsnum \<Rightarrow> bool" where
  "js_isNaN x = (x = NaN)"

definition js_isFinite :: "jsnum \<Rightarrow> bool" where
  "js_isFinite x = (case x of Fin _ \<Rightarrow> True | _ \<Rightarrow> False)"

text \<open>Truthiness of a number: \<^verbatim>\<open>0\<close> and \<^verbatim>\<open>NaN\<close> are falsy.\<close>

definition js_truthy :: "jsnum \<Rightarrow> bool" where
  "js_truthy x = (x \<noteq> Fin 0 \<and> x \<noteq> NaN)"

text \<open>The sign of a number that is not \<^verbatim>\<open>NaN\<close>.\<close>

fun js_sign :: "jsnum \<Rightarrow> int" where
  "js_sign NaN = 0"
| "js_sign PInf = 1"
| "js_sign NInf = - 1"
| "js_sign (Fin a) = (if a < 0 then - 1 else if a = 0 then 0 else 1)"

fun js_neg :: "jsnum \<Rightarrow> jsnum" where
  "js_neg NaN = NaN"
| "js_neg PInf = NInf"
| "js_neg NInf = PInf"
| "js_neg (Fin a) = Fin (- a)"

fun js_add :: "jsnum \<Rightarrow> jsnum \<Rightarrow> jsnum" where
  "js_add (Fin a) (Fin b) = Fin (a + b)"
| "js_add NaN _ = NaN"
| "js_add _ NaN = NaN"
| "js_add PInf NInf = NaN"
| "js_add NInf PInf = NaN"
| "js_add PInf _ = PInf"
| "js_add NInf _ = NInf"
| "js_add _ PInf = PInf"
| "js_add _ NInf = NInf"

definition js_sub :: "jsnum \<Rightarrow> jsnum \<Rightarrow> jsnum" where
  "js_sub x y = js_add x (js_neg y)"

definition js_signed_inf :: "int \<Rightarrow> jsnum" where
  "js_signed_inf s = (if s = 0 then NaN else if 0 < s then PInf else NInf)"

fun js_mul :: "jsnum \<Rightarrow> jsnum \<Rightarrow> jsnum" where
  "js_mul (Fin a) (Fin b) = Fin (a * b)"
| "js_mul NaN _ = NaN"
| "js_mul _ NaN = NaN"
| "js_mul x y = js_signed_inf (js_sign x * js_sign y)"

text \<open>
  Division: a finite value over an infinity is zero, an infinity over an infinity and
  zero over zero are \<^verbatim>\<open>NaN\<close>, a non-zero value over zero is an infinity with the
  sign of the dividend (the zero is taken as positive).
\<close>

fun js_div :: "jsnum \<Rightarrow> jsnum \<Rightarrow> jsnum" where
  "js_div (Fin a) (Fin b) = (if b = 0 then js_signed_inf (js_sign (Fin a)) else Fin (a / b))"
| "js_div NaN _ = NaN"
| "js_div _ NaN = NaN"
| "js_div (Fin a) _ = Fin 0"
| "js_div x (Fin b) = js_signed_inf (js_sign x * (if b < 0 then - 1 else 1))"
| "js_div _ _ = NaN"

text \<open>Comparisons: every comparison with \<^verbatim>\<open>NaN\<close> is false.\<close>

fun js_lt :: "jsnum \<Rightarrow> jsnum \<Rightarrow> bool" where
  "js_lt (Fin a) (Fin b) = (a < b)"
| "js_lt NaN _ = False"
| "js_lt _ NaN = False"
| "js_lt NInf NInf = False"
| "js_lt NInf _ = True"
| "js_lt _ NInf = False"
| "js_lt PInf _ = False"
| "js_lt _ PInf = True"

definition js_ge :: "jsnum \<Rightarrow> jsnum \<Rightarrow> bool" where
  "js_ge x y = (x \<noteq> NaN \<and> y \<noteq> NaN \<and> \<not> js_lt x y)"

definition js_eq :: "jsnum \<Rightarrow> jsnum \<Rightarrow> bool" where
  "js_eq x y = (x \<noteq> NaN \<and> x = y)"

definition js_max :: "jsnum \<Rightarrow> jsnum \<Rightarrow> jsnum" where
  "js_max x y = (if x = NaN \<or> y = NaN then NaN else if js_lt x y then y else x)"

definition js_min :: "jsnum \<Rightarrow> jsnum \<Rightarrow> jsnum" where
  "js_min x y = (if x = NaN \<or> y = NaN then NaN else if js_lt y x then y else x)"

fun js_floor :: "jsnum \<Rightarrow> jsnum" where
  "js_floor (Fin a) = Fin (of_int \<lfloor>a\<rfloor>)"
| "js_floor x = x"

text \<open>\<^verbatim>\<open>Math.round\<close> rounds to the nearest integer, a half towards plus infinity.\<close>

fun js_round :: "jsnum \<Rightarrow> jsnum" where
  "js_round (Fin a) = Fin (of_int \<lfloor>a + 1 / 2\<rfloor>)"
| "js_round x = x"

section \<open>Strings\<close>

text \<open>
  Strings are character lists, one character for each code unit, so \<^verbatim>\<open>.length\<close>
  is \<^const>\<open>length\<close>.
\<close>

definition digit_char :: "nat \<Rightarrow> char" where
  "digit_char d = ''0123456789'' ! d"

fun nat_to_string :: "nat \<Rightarrow> string" where
  "nat_to_string n =
     (if n < 10 then [digit_char n]
      else nat_to_string (n div 10) @ [digit_char (n mod 10)])"

declare nat_to_string.simps [simp del]

definition is_integer :: "rat \<Rightarrow> bool" where
  "is_integer a = (a = of_int \<lfloor>a\<rfloor>)"

text \<open>
  \<^verbatim>\<open>ToString\<close> of a number. An integer below \<open>10^21\<close> in magnitude prints as
  its decimal digits. For the other finite values ECMAScript prints the shortest
  decimal that reads back as the same double; that function belongs to the platform
  and is the parameter \<open>shortest\<close>.
\<close>

definition number_to_string :: "(rat \<Rightarrow> string) \<Rightarrow> jsnum \<Rightarrow> string" where
  "number_to_string shortest x =
     (case x of
        NaN \<Rightarrow> ''NaN''
      | PInf \<Rightarrow> ''Infinity''
      | NInf \<Rightarrow> ''-Infinity''
      | Fin a \<Rightarrow>
          if is_integer a \<and> \<bar>a\<bar> < 10 ^ 21
          then (if a < 0 then ''-'' else '''') @ nat_to_string (nat \<lfloor>\<bar>a\<bar>\<rfloor>)
          else shortest a)"

text \<open>
  \<^verbatim>\<open>Number.prototype.toFixed(f)\<close>: the sign, then the integer \<open>n\<close> nearest to
  \<open>x * 10^f\<close> (the larger of two), printed with \<open>f\<close> digits after the point.
\<close>

definition fixed_digits :: "nat \<Rightarrow> rat \<Rightarrow> string" where
  "fixed_digits f x =
     (let m = nat_to_string (nat \<lfloor>x * 10 ^ f + 1 / 2\<rfloor>)
      in if f = 0 then m
         else let m' = replicate (f + 1 - length m) (CHR ''0'') @ m;
                  k = length m'
              in take (k - f) m' @ ''.'' @ drop (k - f) m')"

definition toFixed :: "(rat \<Rightarrow> string) \<Rightarrow> nat \<Rightarrow> jsnum \<Rightarrow> string" where
  "toFixed shortest f x =
     (case x of
        Fin a \<Rightarrow>
          if 10 ^ 21 \<le> \<bar>a\<bar> then number_to_string shortest x
          else (if a < 0 then ''-'' else '''') @ fixed_digits f \<bar>a\<bar>
      | _ \<Rightarrow> number_to_string shortest x)"

text \<open>
  \<^verbatim>\<open>String.prototype.replace(pattern, replacement)\<close> with a string pattern replaces
  the first occurrence only. \<open>split_at_first\<close> finds it: the text before the
  occurrence and the text after it.
\<close>

fun split_at_first :: "string \<Rightarrow> string \<Rightarrow> (string \<times> string) option" where
  "split_at_first pat [] = (if pat = [] then Some ([], []) else None)"
| "split_at_first pat (c # cs) =
     (if take (length pat) (c # cs) = pat then Some ([], drop (length pat) (c # cs))
      else map_option (\<lambda>(before, after). (c # before, after)) (split_at_first pat cs))"

text \<open>
  In the replacement text \<^verbatim>\<open>$$\<close> stands for a dollar sign, \<^verbatim>\<open>$&\<close> for the
  matched text, a dollar sign with a backquote for the text before the match and a
  dollar sign with a quote for the text after it. A string pattern has no capture
  groups, so every other dollar sign stands for itself.
\<close>

fun get_substitution :: "string \<Rightarrow> string \<Rightarrow> string \<Rightarrow> string \<Rightarrow> string" where
  "get_substitution matched before after [] = []"
| "get_substitution matched before after [c] = [c]"
| "get_substitution matched before after (c # d # r) =
     (if c = CHR ''$'' \<and> d = CHR ''$'' then CHR ''$'' # get_substitution matched before after r
      else if c = CHR ''$'' \<and> d = CHR ''&'' then matched @ get_substitution matched before after r
      else if c = CHR ''$'' \<and> d = CHR 0x60 then before @ get_substitution matched before after r
      else if c = CHR ''$'' \<and> d = CHR 0x27 then after @ get_substitution matched before after r
      else c # get_substitution matched before after (d # r))"

definition js_replace :: "string \<Rightarrow> string \<Rightarrow> string \<Rightarrow> string" where
  "js_replace pat repl s =
     (case split_at_first pat s of
        None \<Rightarrow> s
      | Some (before, after) \<Rightarrow> before @ get_substitution pat before after repl @ after)"

section \<open>The data of a progress bar\<close>

text \<open>
  The output stream: the bar reads \<^verbatim>\<open>isTTY\<close> and \<^verbatim>\<open>columns\<close> (absent on a
  stream that is not a terminal) and calls \<^verbatim>\<open>cursorTo\<close>, \<^verbatim>\<open>write\<close> and
  \<^verbatim>\<open>clearLine\<close>. The calls the bar makes are kept in order in its field
  \<open>calls\<close>, together with the entries into \<^verbatim>\<open>terminate\<close> and the invocations of
  the completion callback. The callback is the host's code; it is taken not to touch
  the bar.
\<close>

record tty_stream =
  isTTY :: bool
  columns :: "jsnum option"

datatype call =
    CursorTo nat
  | Write string
  | ClearLine "nat option"
  | TerminateCalled
  | CallbackCalled

datatype error = Error string | TypeError | RangeError

type_synonym tokens = "(string \<times> string) list"

text \<open>The table \<^verbatim>\<open>mkUnits\<close> builds: \<^verbatim>\<open>{ labels: ..., values: ... }\<close>.\<close>

record unit_table =
  labels :: "string list"
  unit_values :: "jsnum list"

text \<open>
  The first constructor argument may be any value; the second is \<^verbatim>\<open>undefined\<close>,
  \<^verbatim>\<open>null\<close>, a number (the shorthand for the total), an options object, or a
  boolean or string, which has none of the properties the constructor reads. The
  fields of an options object have their documented types, each of them optional;
  \<open>opt_total\<close> is any value, since the constructor tests its type.
\<close>

datatype jsval = JUndefined | JNull | JBool bool | JNumber jsnum | JString string

record options =
  opt_total :: jsval
  opt_width :: "jsnum option"
  opt_stream :: "tty_stream option"
  opt_complete :: "string option"
  opt_incomplete :: "string option"
  opt_renderThrottle :: "jsnum option"
  opt_callback :: bool
  opt_clear :: bool
  opt_units :: "(string \<times> jsnum) list option"

datatype ctor_arg =
    ArgUndefined
  | ArgNull
  | ArgNumber jsnum
  | ArgOptions options
  | ArgPrimitive

text \<open>
  The fields of \<^verbatim>\<open>this\<close>. \<open>start\<close> is the time of \<^verbatim>\<open>new Date\<close> in milliseconds,
  \<open>None\<close> while unset; \<open>renderThrottleTimeout\<close> is the handle of the pending timer
  (the delay it was scheduled with stands for the handle), \<open>None\<close> for
  \<^verbatim>\<open>undefined\<close> and \<^verbatim>\<open>null\<close>; \<open>complete_b\<close> is false while
  \<^verbatim>\<open>this.complete\<close> is unset.
\<close>

record bar =
  stream :: tty_stream
  fmt :: jsval
  curr_b :: jsnum
  total_b :: jsnum
  units :: unit_table
  width :: jsnum
  clear :: bool
  chars_complete :: string
  chars_incomplete :: string
  renderThrottle :: jsnum
  callback_given :: bool
  tokens :: tokens
  lastDraw :: string
  start :: "int option"
  complete_b :: bool
  renderThrottleTimeout :: "jsnum option"
  calls :: "call list"

section \<open>The unit table\<close>

text \<open>
  \<^verbatim>\<open>ProgressBar.defaultUnits\<close>, in the order \<^verbatim>\<open>Object.keys\<close> lists it.
\<close>

definition defaultUnits :: "(string \<times> jsnum) list" where
  "defaultUnits = [(''h'', Fin 3600), (''m'', Fin 60), (''s'', Fin 1)]"

text \<open>
  \<^verbatim>\<open>mkUnits\<close> sorts the entries with the comparator \<^verbatim>\<open>a.value - b.value\<close>.
  The sort is stable (ECMAScript 2019), and a comparator result that is not positive,
  \<^verbatim>\<open>NaN\<close> included, leaves \<open>a\<close> before \<open>b\<close>.
\<close>

fun insert_unit :: "string \<times> jsnum \<Rightarrow> (string \<times> jsnum) list \<Rightarrow> (string \<times> jsnum) list" where
  "insert_unit a [] = [a]"
| "insert_unit a (b # bs) =
     (if js_lt (Fin 0) (js_sub (snd a) (snd b)) then b # insert_unit a bs else a # b # bs)"

definition sort_units :: "(string \<times> jsnum) list \<Rightarrow> (string \<times> jsnum) list" where
  "sort_units obj = foldr insert_unit obj []"

definition mkUnits :: "(string \<times> jsnum) list \<Rightarrow> unit_table" where
  "mkUnits obj =
     (let arr = sort_units obj
      in \<lparr> labels = map fst arr, unit_values = map snd arr \<rparr>)"

section \<open>Construction\<close>

definition empty_options :: options where
  "empty_options =
     \<lparr> opt_total = JUndefined, opt_width = None, opt_stream = None, opt_complete = None,
       opt_incomplete = None, opt_renderThrottle = None, opt_callback = False,
       opt_clear = False, opt_units = None \<rparr>"

text \<open>\<^verbatim>\<open>a || b\<close> on an optional number and on an optional string.\<close>

definition num_or :: "jsnum option \<Rightarrow> jsnum \<Rightarrow> jsnum" where
  "num_or a d = (case a of Some x \<Rightarrow> if js_truthy x then x else d | None \<Rightarrow> d)"

definition str_or :: "string option \<Rightarrow> string \<Rightarrow> string" where
  "str_or a d = (case a of Some x \<Rightarrow> if x \<noteq> [] then x else d | None \<Rightarrow> d)"

text \<open>Lines 60 to 73: the fields, from the options and the total.\<close>

definition init_bar :: "tty_stream \<Rightarrow> jsval \<Rightarrow> options \<Rightarrow> jsnum \<Rightarrow> bar" where
  "init_bar s f opts n =
     \<lparr> stream = s,
       fmt = f,
       curr_b = Fin 0,
       total_b = n,
       units = mkUnits (case opt_units opts of Some u \<Rightarrow> u | None \<Rightarrow> [(''s'', Fin 1)]),
       width = num_or (opt_width opts) n,
       clear = opt_clear opts,
       chars_complete = str_or (opt_complete opts) ''='',
       chars_incomplete = str_or (opt_incomplete opts) ''-'',
       renderThrottle =
         (if opt_renderThrottle opts \<noteq> Some (Fin 0)
          then num_or (opt_renderThrottle opts) (Fin 16) else Fin 0),
       callback_given = opt_callback opts,
       tokens = [],
       lastDraw = [],
       start = None,
       complete_b = False,
       renderThrottleTimeout = None,
       calls = [] \<rparr>"

text \<open>
  The constructor. \<open>stderr\<close> is \<^verbatim>\<open>process.stderr\<close>, \<open>None\<close> where the host has
  none. Reading \<^verbatim>\<open>options.stream\<close> of \<^verbatim>\<open>undefined\<close> or \<^verbatim>\<open>null\<close> is a
  \<^verbatim>\<open>TypeError\<close>; a number, a boolean and a string have no such property.
\<close>

definition arg_options :: "ctor_arg \<Rightarrow> options" where
  "arg_options arg = (case arg of ArgOptions opts \<Rightarrow> opts | _ \<Rightarrow> empty_options)"

definition ProgressBar :: "tty_stream option \<Rightarrow> jsval \<Rightarrow> ctor_arg \<Rightarrow> error + bar" where
  "ProgressBar stderr f arg =
     (if arg = ArgUndefined \<or> arg = ArgNull then Inl TypeError
      else case (case opt_stream (arg_options arg) of Some s \<Rightarrow> Some s | None \<Rightarrow> stderr) of
        None \<Rightarrow> Inl (Error ''invalid stream'')
      | Some s \<Rightarrow>
          (case arg of
             ArgNumber n \<Rightarrow> Inr (init_bar s f (empty_options \<lparr> opt_total := JNumber n \<rparr>) n)
           | _ \<Rightarrow>
               (case f of
                  JString _ \<Rightarrow>
                    (case opt_total (arg_options arg) of
                       JNumber n \<Rightarrow> Inr (init_bar s f (arg_options arg) n)
                     | _ \<Rightarrow> Inl (Error ''total required''))
                | _ \<Rightarrow> Inl (Error ''format required''))))"

section \<open>The estimate\<close>

text \<open>\<^verbatim>\<open>labels[i]\<close>: \<^verbatim>\<open>undefined\<close> outside the array.\<close>

definition js_index :: "'a list \<Rightarrow> int \<Rightarrow> 'a option" where
  "js_index xs i = (if 0 \<le> i \<and> i < int (length xs) then Some (xs ! nat i) else None)"

text \<open>
  The first loop, \<^verbatim>\<open>while (i > 0 && eta < values[i]) i--\<close>, and the second,
  \<^verbatim>\<open>while (i > 0) eta /= values[i--]\<close>. Both run only from an index that is
  positive, so the index is a natural number here.
\<close>

fun descend :: "jsnum \<Rightarrow> jsnum list \<Rightarrow> nat \<Rightarrow> nat" where
  "descend eta vs 0 = 0"
| "descend eta vs (Suc i) = (if js_lt eta (vs ! Suc i) then descend eta vs i else Suc i)"

fun divide_down :: "jsnum \<Rightarrow> jsnum list \<Rightarrow> nat \<Rightarrow> jsnum" where
  "divide_down eta vs 0 = eta"
| "divide_down eta vs (Suc i) = divide_down (js_div eta (vs ! Suc i)) vs i"

text \<open>
  The object \<^verbatim>\<open>estimate\<close> returns: it has the properties \<^verbatim>\<open>eta\<close> and
  \<^verbatim>\<open>suffix\<close> on the first return and \<^verbatim>\<open>value\<close> and \<^verbatim>\<open>suffix\<close> on the
  second. \<open>None\<close> is a property that is absent or \<^verbatim>\<open>undefined\<close>.
\<close>

record estimation =
  est_value :: "string option"
  est_eta :: "string option"
  est_suffix :: "string option"

text \<open>
  \<open>remaining\<close> is the value of \<^verbatim>\<open>eta\<close> after line 206, in seconds;
  \<open>estimate_from\<close> is the rest of the function, from line 208.
\<close>

definition remaining :: "jsnum \<Rightarrow> jsnum \<Rightarrow> bar \<Rightarrow> jsnum" where
  "remaining elapsed percent b =
     js_div
       (if js_eq percent (Fin 100) then Fin 0
        else js_mul elapsed (js_sub (js_div (total_b b) (curr_b b)) (Fin 1)))
       (Fin 1000)"

definition estimate_from :: "(rat \<Rightarrow> string) \<Rightarrow> unit_table \<Rightarrow> jsnum \<Rightarrow> estimation" where
  "estimate_from shortest u eta =
     (let vs = unit_values u;
          ls = labels u;
          i = int (length vs) - 1;
          suffix = js_index ls i
      in if js_isNaN eta \<or> \<not> js_isFinite eta
         then \<lparr> est_value = None, est_eta = Some ''0.0'', est_suffix = suffix \<rparr>
         else
           let i' = (if 0 < i then int (descend eta vs (nat i)) else i);
               suffix' = js_index ls i';
               eta' = (if 0 < i' then divide_down eta vs (nat i') else eta)
           in \<lparr> est_value = Some (toFixed shortest 1 eta'), est_eta = None,
                est_suffix = suffix' \<rparr>)"

definition estimate :: "(rat \<Rightarrow> string) \<Rightarrow> jsnum \<Rightarrow> jsnum \<Rightarrow> bar \<Rightarrow> estimation" where
  "estimate shortest elapsed percent b =
     estimate_from shortest (units b) (remaining elapsed percent b)"

section \<open>Rendering\<close>

text \<open>\<^verbatim>\<open>ToString\<close> of a property that may be \<^verbatim>\<open>undefined\<close>.\<close>

definition string_of_property :: "string option \<Rightarrow> string" where
  "string_of_property p = (case p of Some s \<Rightarrow> s | None \<Rightarrow> ''undefined'')"

text \<open>
  \<^verbatim>\<open>Array(n).join(sep)\<close>: \<^verbatim>\<open>Array(n)\<close> throws a \<^verbatim>\<open>RangeError\<close> unless
  \<open>n\<close> is an integer from 0 to \<open>2^32 - 1\<close>; joining \<open>n\<close> empty slots gives
  \<open>n - 1\<close> copies of the separator.
\<close>

definition array_join :: "jsnum \<Rightarrow> string \<Rightarrow> error + string" where
  "array_join n sep =
     (case n of
        Fin a \<Rightarrow>
          if is_integer a \<and> 0 \<le> a \<and> a < 2 ^ 32
          then Inr (concat (replicate (nat \<lfloor>a\<rfloor> - 1) sep))
          else Inl RangeError
      | _ \<Rightarrow> Inl RangeError)"

text \<open>Lines 157 and 158: the ratio, clamped.\<close>

definition bar_ratio :: "bar \<Rightarrow> jsnum" where
  "bar_ratio b = js_min (js_max (js_div (curr_b b) (total_b b)) (Fin 0)) (Fin 1)"

text \<open>Line 162: \<^verbatim>\<open>new Date - this.start\<close>, at the time \<open>now\<close>.\<close>

definition elapsed_at :: "int \<Rightarrow> bar \<Rightarrow> jsnum" where
  "elapsed_at now b = (case start b of None \<Rightarrow> NaN | Some t \<Rightarrow> Fin (of_int (now - t)))"

text \<open>Lines 166 to 172: the template \<open>f\<close> with the tokens but \<^verbatim>\<open>:bar\<close> filled in.\<close>

definition populate :: "(rat \<Rightarrow> string) \<Rightarrow> int \<Rightarrow> bar \<Rightarrow> string \<Rightarrow> string" where
  "populate shortest now b f =
     (let ratio = bar_ratio b;
          percent = js_mul ratio (Fin 100);
          elapsed = elapsed_at now b;
          eta = estimate shortest elapsed percent b;
          s1 = js_replace '':current'' (number_to_string shortest (curr_b b)) f;
          s2 = js_replace '':total'' (number_to_string shortest (total_b b)) s1;
          s3 = js_replace '':elapsed''
                 (if js_isNaN elapsed then ''0.0''
                  else toFixed shortest 1 (js_div elapsed (Fin 1000))) s2;
          s4 = js_replace '':eta'' (string_of_property (est_value eta)) s3;
          s5 = js_replace '':unit'' (string_of_property (est_suffix eta)) s4
      in js_replace '':percent'' (toFixed shortest 0 percent @ ''%'') s5)"

text \<open>Lines 175 and 176: the width of the bar, for the populated template \<open>str\<close>.\<close>

definition columns_of :: "tty_stream \<Rightarrow> jsnum" where
  "columns_of s = (case columns s of Some c \<Rightarrow> c | None \<Rightarrow> NaN)"

definition bar_width :: "bar \<Rightarrow> string \<Rightarrow> jsnum" where
  "bar_width b str =
     (let availableSpace =
            js_max (Fin 0)
              (js_sub (columns_of (stream b)) (Fin (of_nat (length (js_replace '':bar'' [] str)))))
      in js_min (width b) availableSpace)"

text \<open>Lines 179 to 181: the two runs of glyphs.\<close>

definition completeLength :: "jsnum \<Rightarrow> jsnum \<Rightarrow> jsnum" where
  "completeLength w ratio = js_round (js_mul w ratio)"

definition incompleteLength :: "jsnum \<Rightarrow> jsnum \<Rightarrow> jsnum" where
  "incompleteLength w ratio = js_sub w (completeLength w ratio)"

definition bar_glyphs :: "bar \<Rightarrow> jsnum \<Rightarrow> jsnum \<Rightarrow> error + string" where
  "bar_glyphs b w ratio =
     (case array_join (js_add (completeLength w ratio) (Fin 1)) (chars_complete b) of
        Inl e \<Rightarrow> Inl e
      | Inr complete_glyphs \<Rightarrow>
          (case array_join (js_add (incompleteLength w ratio) (Fin 1)) (chars_incomplete b) of
             Inl e \<Rightarrow> Inl e
           | Inr incomplete_glyphs \<Rightarrow> Inr (complete_glyphs @ incomplete_glyphs)))"

text \<open>
  Lines 157 to 187: the line to draw, or the exception thrown on the way. A format
  that is not a string has no \<^verbatim>\<open>replace\<close> method.
\<close>

definition render_line :: "(rat \<Rightarrow> string) \<Rightarrow> int \<Rightarrow> bar \<Rightarrow> error + string" where
  "render_line shortest now b =
     (case fmt b of
        JString f \<Rightarrow>
          (let str = populate shortest now b f
           in case bar_glyphs b (bar_width b str) (bar_ratio b) of
                Inl e \<Rightarrow> Inl e
              | Inr glyphs \<Rightarrow>
                  Inr (foldl (\<lambda>s (key, v). js_replace (CHR '':'' # key) v s)
                         (js_replace '':bar'' glyphs str) (tokens b)))
      | _ \<Rightarrow> Inl TypeError)"

text \<open>
  \<^verbatim>\<open>render(tokens)\<close> at the time \<open>now\<close>. \<open>render_begin\<close> is lines 150 to 153:
  the pending timer is cleared and the tokens, when given, are stored. The result of
  \<open>render\<close> is the exception thrown, if any, and the bar as the call leaves it: what
  was assigned before a throw stays assigned.
\<close>

definition render_begin :: "tokens option \<Rightarrow> bar \<Rightarrow> bar" where
  "render_begin tk b =
     (let b1 = b \<lparr> renderThrottleTimeout := None \<rparr>
      in case tk of Some t \<Rightarrow> b1 \<lparr> tokens := t \<rparr> | None \<Rightarrow> b1)"

definition render :: "(rat \<Rightarrow> string) \<Rightarrow> int \<Rightarrow> tokens option \<Rightarrow> bar \<Rightarrow> error option \<times> bar" where
  "render shortest now tk b =
     (let b2 = render_begin tk b
      in if \<not> isTTY (stream b2) then (None, b2)
         else case render_line shortest now b2 of
                Inl e \<Rightarrow> (Some e, b2)
              | Inr str \<Rightarrow>
                  if lastDraw b2 \<noteq> str
                  then (None, b2 \<lparr> calls := calls b2 @ [CursorTo 0, Write str, ClearLine (Some 1)],
                                   lastDraw := str \<rparr>)
                  else (None, b2))"

section \<open>Ticking\<close>

definition terminate :: "bar \<Rightarrow> bar" where
  "terminate b =
     (let b1 = b \<lparr> calls := calls b @ [TerminateCalled] \<rparr>
      in if clear b1 \<and> isTTY (stream b1)
         then b1 \<lparr> calls := calls b1 @ [ClearLine None, CursorTo 0] \<rparr>
         else b1 \<lparr> calls := calls b1 @ [Write [CHR 0x0A]] \<rparr>)"

text \<open>
  The first argument of \<^verbatim>\<open>tick\<close>: absent, a number, or the tokens object.
  \<open>tick_len\<close> is lines 114 to 118 for the length, \<open>tick_tokens\<close> for the tokens.
\<close>

datatype tick_arg = NoArg | NumArg jsnum | TokensArg tokens

definition tick_len :: "tick_arg \<Rightarrow> jsnum" where
  "tick_len len =
     (case len of
        NoArg \<Rightarrow> Fin 1
      | NumArg x \<Rightarrow> if x \<noteq> Fin 0 then (if js_truthy x then x else Fin 1) else x
      | TokensArg t \<Rightarrow> Fin 1)"

definition tick_tokens :: "tick_arg \<Rightarrow> tokens option \<Rightarrow> tokens option" where
  "tick_tokens len tk = (case len of TokensArg t \<Rightarrow> Some t | _ \<Rightarrow> tk)"

text \<open>
  Lines 119 to 129: the state before the test for completion. \<open>now\<close> is the time
  of the call, in milliseconds; the render a completing tick makes happens at the same
  instant.
\<close>

definition tick_advance :: "int \<Rightarrow> tick_arg \<Rightarrow> tokens option \<Rightarrow> bar \<Rightarrow> bar" where
  "tick_advance now len tk b =
     (let b1 = (case tick_tokens len tk of Some t \<Rightarrow> b \<lparr> tokens := t \<rparr> | None \<Rightarrow> b);
          b2 = (if js_eq (Fin 0) (curr_b b1) then b1 \<lparr> start := Some now \<rparr> else b1);
          b3 = b2 \<lparr> curr_b := js_add (curr_b b2) (tick_len len) \<rparr>
      in if renderThrottleTimeout b3 = None
         then b3 \<lparr> renderThrottleTimeout := Some (renderThrottle b3) \<rparr>
         else b3)"

definition tick :: "(rat \<Rightarrow> string) \<Rightarrow> int \<Rightarrow> tick_arg \<Rightarrow> tokens option \<Rightarrow> bar \<Rightarrow> error option \<times> bar" where
  "tick shortest now len tk b =
     (let b4 = tick_advance now len tk b
      in if js_ge (curr_b b4) (total_b b4)
         then
           (case (if renderThrottleTimeout b4 \<noteq> None then render shortest now None b4
                  else (None, b4)) of
              (Some e, b5) \<Rightarrow> (Some e, b5)
            | (None, b5) \<Rightarrow>
                (let b6 = terminate (b5 \<lparr> complete_b := True \<rparr>)
                 in (None, b6 \<lparr> calls := calls b6 @ [CallbackCalled] \<rparr>)))
         else (None, b4))"

definition update :: "(rat \<Rightarrow> string) \<Rightarrow> int \<Rightarrow> jsnum \<Rightarrow> tokens option \<Rightarrow> bar \<Rightarrow> error option \<times> bar" where
  "update shortest now ratio tk b =
     (let goal = js_floor (js_mul ratio (total_b b));
          delta = js_sub goal (curr_b b)
      in tick shortest now (NumArg delta) tk b)"

text \<open>The timer set by \<^verbatim>\<open>tick\<close> fires: \<^verbatim>\<open>render()\<close>, if it is still pending.\<close>

definition timer_fires :: "(rat \<Rightarrow> string) \<Rightarrow> int \<Rightarrow> bar \<Rightarrow> error option \<times> bar" where
  "timer_fires shortest now b =
     (if renderThrottleTimeout b \<noteq> None then render shortest now None b else (None, b))"

text \<open>The calls a method added: those of \<open>b'\<close> after the calls of \<open>b\<close>.\<close>

definition new_calls :: "bar \<Rightarrow> bar \<Rightarrow> call list" where
  "new_calls b b' = drop (length (calls b)) (calls b')"

text \<open>\<^verbatim>\<open>log\<close>, for the message \<^verbatim>\<open>util.format\<close> makes of the arguments.\<close>

definition log_b :: "string \<Rightarrow> bar \<Rightarrow> bar" where
  "log_b msg b =
     (let b1 = (if isTTY (stream b) then b \<lparr> calls := calls b @ [ClearLine None, CursorTo 0] \<rparr>
                else b);
          b2 = b1 \<lparr> calls := calls b1 @ [Write (msg @ [CHR 0x0A])] \<rparr>
      in if isTTY (stream b2) then b2 \<lparr> calls := calls b2 @ [Write (lastDraw b2)] \<rparr> else b2)"

section \<open>Example hosts\<close>

text \<open>
  A terminal of 80 columns, a stream that is not a terminal, and a stand-in for the
  platform's printing of numbers that are not integers, for the examples below.
\<close>

definition terminal80 :: tty_stream where
  "terminal80 = \<lparr> isTTY = True, columns = Some (Fin 80) \<rparr>"

definition pipe_stream :: tty_stream where
  "pipe_stream = \<lparr> isTTY = False, columns = None \<rparr>"

definition no_fractions :: "rat \<Rightarrow> string" where
  "no_fractions a = ''?''"

text \<open>\<^verbatim>\<open>{ total: n }\<close>, with the other options as given.\<close>

definition with_total :: "rat \<Rightarrow> options \<Rightarrow> options" where
  "with_total n opts = opts \<lparr> opt_total := JNumber (Fin n) \<rparr>"

text \<open>
  The bar \<^verbatim>\<open>new ProgressBar(f, { total: n })\<close> on the stream \<open>s\<close>.
\<close>

definition example_bar :: "tty_stream \<Rightarrow> string \<Rightarrow> rat \<Rightarrow> bar" where
  "example_bar s f n = init_bar s (JString f) (with_total n empty_options) (Fin n)"

text \<open>
  A bar of total 1 after \<^verbatim>\<open>tick(1)\<close>, which completes it, and a bar of total 3
  after one \<^verbatim>\<open>tick()\<close>, both on the stream that is not a terminal.
\<close>

definition completed_bar :: bar where
  "completed_bar =
     snd (tick no_fractions 0 (NumArg (Fin 1)) None (example_bar pipe_stream '':bar'' 1))"

definition ticked_once :: bar where
  "ticked_once = snd (tick no_fractions 0 NoArg None (example_bar pipe_stream '':bar'' 3))"

text \<open>
  The bar \<^verbatim>\<open>new ProgressBar(':eta:unit', { total: n, units: u })\<close> on the
  terminal, and such a bar with \<^verbatim>\<open>ProgressBar.defaultUnits\<close> and total 61 after one
  \<^verbatim>\<open>tick()\<close> at time 0: sixty seconds later one tick of 61 is done, and sixty
  times sixty seconds remain.
\<close>

definition units_bar :: "rat \<Rightarrow> (string \<times> jsnum) list \<Rightarrow> bar" where
  "units_bar n u =
     init_bar terminal80 (JString '':eta:unit'')
       (with_total n (empty_options \<lparr> opt_units := Some u \<rparr>)) (Fin n)"

definition one_hour_left :: bar where
  "one_hour_left = snd (tick no_fractions 0 NoArg None (units_bar 61 defaultUnits))"




section \<open>Construction and the unit table\<close>

lemma ProgressBar_Inr:
  "ProgressBar stderr f arg = Inr b \<Longrightarrow>
     \<exists>s n. b = init_bar s f
       (if (\<exists>m. arg = ArgNumber m) then empty_options \<lparr> opt_total := JNumber n \<rparr>
        else arg_options arg) n"
  by (auto simp: ProgressBar_def split: if_splits option.splits ctor_arg.splits jsval.splits)

lemma mkUnits_seconds:
  "mkUnits [(''s'', Fin 1)] = \<lparr> labels = [''s''], unit_values = [Fin 1] \<rparr>"
  by (simp add: mkUnits_def sort_units_def)

lemma mkUnits_defaultUnits:
  "mkUnits defaultUnits =
     \<lparr> labels = [''s'', ''m'', ''h''], unit_values = [Fin 1, Fin 60, Fin 3600] \<rparr>"
  by (simp add: mkUnits_def sort_units_def defaultUnits_def js_sub_def)

lemma ProgressBar_options_ok:
  "ProgressBar (Some s) (JString f) (ArgOptions (with_total n opts)) =
     Inr (init_bar (case opt_stream opts of Some s' \<Rightarrow> s' | None \<Rightarrow> s) (JString f)
            (with_total n opts) (Fin n))"
  by (simp add: ProgressBar_def arg_options_def with_total_def split: option.splits)

lemma ProgressBar_number_ok:
  "ProgressBar (Some s) f (ArgNumber n) =
     Inr (init_bar s f (empty_options \<lparr> opt_total := JNumber n \<rparr>) n)"
  by (simp add: ProgressBar_def arg_options_def empty_options_def)

text \<open>
  C2 (as stated): a bar built without a \<^verbatim>\<open>units\<close> option has the table
  (s,1), (m,60), (h,3600). It fails: the constructor's default is
  \<^verbatim>\<open>{ 's': 1 }\<close>, in the options form and in the shorthand alike, and the table
  built has the one entry (s,1).
\<close>

theorem C2_counterexample:
  "map_sum id units (ProgressBar (Some terminal80) (JString '':bar'')
      (ArgOptions (with_total 10 empty_options)))
     = Inr \<lparr> labels = [''s''], unit_values = [Fin 1] \<rparr> \<and>
   map_sum id units (ProgressBar (Some terminal80) (JString '':bar'') (ArgNumber (Fin 10)))
     = Inr \<lparr> labels = [''s''], unit_values = [Fin 1] \<rparr> \<and>
   \<lparr> labels = [''s''], unit_values = [Fin 1] \<rparr>
     \<noteq> \<lparr> labels = [''s'', ''m'', ''h''], unit_values = [Fin 1, Fin 60, Fin 3600] \<rparr>"
  unfolding ProgressBar_options_ok ProgressBar_number_ok
  by (simp add: init_bar_def mkUnits_seconds with_total_def empty_options_def)

text \<open>
  C2 (amended): a bar built without a \<^verbatim>\<open>units\<close> option has the table of the
  single unit (s,1). The units h = 3600, m = 60, s = 1 are the constant
  \<^verbatim>\<open>ProgressBar.defaultUnits\<close>; a bar built with that constant as its
  \<^verbatim>\<open>units\<close> option has the sorted table (s,1), (m,60), (h,3600).
\<close>

theorem C2_default_units:
  assumes "ProgressBar stderr f arg = Inr b"
  shows "(opt_units (arg_options arg) = None \<longrightarrow>
            units b = \<lparr> labels = [''s''], unit_values = [Fin 1] \<rparr>) \<and>
         (opt_units (arg_options arg) = Some defaultUnits \<longrightarrow>
            units b = \<lparr> labels = [''s'', ''m'', ''h''],
                        unit_values = [Fin 1, Fin 60, Fin 3600] \<rparr>)"
proof -
  from assms obtain s n where
    b: "b = init_bar s f
          (if (\<exists>m. arg = ArgNumber m) then empty_options \<lparr> opt_total := JNumber n \<rparr>
           else arg_options arg) n"
    using ProgressBar_Inr by blast
  have num: "(\<exists>m. arg = ArgNumber m) \<Longrightarrow> arg_options arg = empty_options"
    by (auto simp: arg_options_def)
  show ?thesis
    using b num
    by (auto simp: init_bar_def mkUnits_seconds mkUnits_defaultUnits empty_options_def)
qed

theorem C2_default_units_witness:
  "units (init_bar terminal80 (JString '':bar'') (with_total 10 empty_options) (Fin 10))
     = \<lparr> labels = [''s''], unit_values = [Fin 1] \<rparr> \<and>
   units (init_bar terminal80 (JString '':bar'')
            (with_total 10 (empty_options \<lparr> opt_units := Some defaultUnits \<rparr>)) (Fin 10))
     = \<lparr> labels = [''s'', ''m'', ''h''], unit_values = [Fin 1, Fin 60, Fin 3600] \<rparr>"
proof -
  have c1: "ProgressBar (Some terminal80) (JString '':bar'')
              (ArgOptions (with_total 10 empty_options))
            = Inr (init_bar terminal80 (JString '':bar'') (with_total 10 empty_options) (Fin 10))"
    by (simp add: ProgressBar_options_ok empty_options_def)
  have u1: "opt_units (arg_options (ArgOptions (with_total 10 empty_options))) = None"
    by (simp add: arg_options_def with_total_def empty_options_def)
  have c2: "ProgressBar (Some terminal80) (JString '':bar'')
              (ArgOptions (with_total 10 (empty_options \<lparr> opt_units := Some defaultUnits \<rparr>)))
            = Inr (init_bar terminal80 (JString '':bar'')
                (with_total 10 (empty_options \<lparr> opt_units := Some defaultUnits \<rparr>)) (Fin 10))"
    by (simp add: ProgressBar_options_ok empty_options_def)
  have u2: "opt_units (arg_options (ArgOptions
              (with_total 10 (empty_options \<lparr> opt_units := Some defaultUnits \<rparr>))))
            = Some defaultUnits"
    by (simp add: arg_options_def with_total_def empty_options_def)
  from C2_default_units [OF c1] u1 C2_default_units [OF c2] u2 show ?thesis by blast
qed

lemma example_bar_constructed:
  "ProgressBar (Some s) (JString f) (ArgOptions (with_total n empty_options)) =
     Inr (example_bar s f n)"
  by (simp add: ProgressBar_options_ok example_bar_def empty_options_def)

section \<open>Rendering: what a render reads and what it writes\<close>

text \<open>
  The line computed does not depend on the record of calls, on the last line drawn or
  on the timer handle.
\<close>

lemma bar_ratio_frame [simp]:
  "bar_ratio (b \<lparr> calls := c \<rparr>) = bar_ratio b"
  "bar_ratio (b \<lparr> lastDraw := l \<rparr>) = bar_ratio b"
  "bar_ratio (b \<lparr> renderThrottleTimeout := t \<rparr>) = bar_ratio b"
  by (simp_all add: bar_ratio_def)

lemma populate_frame [simp]:
  "populate sd now (b \<lparr> calls := c \<rparr>) f = populate sd now b f"
  "populate sd now (b \<lparr> lastDraw := l \<rparr>) f = populate sd now b f"
  "populate sd now (b \<lparr> renderThrottleTimeout := t \<rparr>) f = populate sd now b f"
  by (simp_all add: populate_def elapsed_at_def estimate_def remaining_def Let_def)

lemma bar_width_frame [simp]:
  "bar_width (b \<lparr> calls := c \<rparr>) str = bar_width b str"
  "bar_width (b \<lparr> lastDraw := l \<rparr>) str = bar_width b str"
  "bar_width (b \<lparr> renderThrottleTimeout := t \<rparr>) str = bar_width b str"
  by (simp_all add: bar_width_def Let_def)

lemma bar_glyphs_frame [simp]:
  "bar_glyphs (b \<lparr> calls := c \<rparr>) w r = bar_glyphs b w r"
  "bar_glyphs (b \<lparr> lastDraw := l \<rparr>) w r = bar_glyphs b w r"
  "bar_glyphs (b \<lparr> renderThrottleTimeout := t \<rparr>) w r = bar_glyphs b w r"
  by (simp_all add: bar_glyphs_def split: sum.splits)

lemma render_line_frame [simp]:
  "render_line sd now (b \<lparr> calls := c \<rparr>) = render_line sd now b"
  "render_line sd now (b \<lparr> lastDraw := l \<rparr>) = render_line sd now b"
  "render_line sd now (b \<lparr> renderThrottleTimeout := t \<rparr>) = render_line sd now b"
  by (simp_all add: render_line_def Let_def split: jsval.splits sum.splits)

lemma render_begin_fields [simp]:
  "stream (render_begin tk b) = stream b"
  "calls (render_begin tk b) = calls b"
  "lastDraw (render_begin tk b) = lastDraw b"
  "curr_b (render_begin tk b) = curr_b b"
  "total_b (render_begin tk b) = total_b b"
  "clear (render_begin tk b) = clear b"
  "renderThrottleTimeout (render_begin tk b) = None"
  "tokens (render_begin tk b) = (case tk of Some t \<Rightarrow> t | None \<Rightarrow> tokens b)"
  by (simp_all add: render_begin_def Let_def split: option.splits)

lemma render_begin_again:
  "renderThrottleTimeout b = None \<Longrightarrow> render_begin None b = b"
  by (simp add: render_begin_def)

text \<open>
  C10: on a stream that is not a terminal, \<^verbatim>\<open>render(tokens)\<close> still clears the
  timer handle and, when tokens are given, stores them; it changes nothing else,
  makes no call on the stream and throws nothing.
\<close>

theorem C10_render_not_a_terminal:
  assumes "\<not> isTTY (stream b)"
  shows "render sd now tk b =
           (None, b \<lparr> renderThrottleTimeout := None,
                      tokens := (case tk of Some t \<Rightarrow> t | None \<Rightarrow> tokens b) \<rparr>) \<and>
         new_calls b (snd (render sd now tk b)) = []"
  using assms by (simp add: render_def render_begin_def new_calls_def split: option.splits)

theorem C10_render_not_a_terminal_witness:
  "\<not> isTTY (stream (snd (tick no_fractions 0 NoArg None (example_bar pipe_stream '':bar'' 3)))) \<and>
   render no_fractions 5 (Some [(''file'', ''a.txt'')])
       (snd (tick no_fractions 0 NoArg None (example_bar pipe_stream '':bar'' 3))) =
     (None, (example_bar pipe_stream '':bar'' 3)
        \<lparr> curr_b := Fin 1, start := Some 0, tokens := [(''file'', ''a.txt'')] \<rparr>)"
proof -
  have t: "snd (tick no_fractions 0 NoArg None (example_bar pipe_stream '':bar'' 3)) =
             (example_bar pipe_stream '':bar'' 3)
               \<lparr> curr_b := Fin 1, start := Some 0, renderThrottleTimeout := Some (Fin 16) \<rparr>"
    by code_simp
  have n: "\<not> isTTY (stream (snd (tick no_fractions 0 NoArg None
                                    (example_bar pipe_stream '':bar'' 3))))"
    unfolding t by (simp add: example_bar_def init_bar_def pipe_stream_def)
  have e: "renderThrottleTimeout (example_bar pipe_stream '':bar'' 3) = None"
    by (simp add: example_bar_def init_bar_def)
  from C10_render_not_a_terminal [OF n, of no_fractions 5 "Some [(''file'', ''a.txt'')]"] n
  show ?thesis unfolding t by (simp add: e)
qed

text \<open>
  C9: a render whose computed line equals the last line drawn makes no call on the
  stream and leaves the last line drawn as it is; a render that does make a call is one
  on a terminal whose computed line differs from the last line drawn, and it moves the
  cursor to column 0, writes the line, clears to the right and records the line. So a
  second render at the same instant changes nothing at all.
\<close>

theorem C9_render_write_suppressed:
  assumes "render sd now tk b = (r, b')"
  shows "(render_line sd now (render_begin tk b) = Inr (lastDraw b) \<longrightarrow>
            calls b' = calls b \<and> lastDraw b' = lastDraw b) \<and>
         (calls b' \<noteq> calls b \<longrightarrow>
            (\<exists>str. isTTY (stream b) \<and> render_line sd now (render_begin tk b) = Inr str \<and>
                   str \<noteq> lastDraw b \<and>
                   calls b' = calls b @ [CursorTo 0, Write str, ClearLine (Some 1)] \<and>
                   lastDraw b' = str)) \<and>
         (r = None \<longrightarrow> render sd now None b' = (None, b'))"
proof -
  let ?b2 = "render_begin tk b"
  show ?thesis
  proof (cases "isTTY (stream b)")
    case False
    with assms have "b' = ?b2" "r = None" by (auto simp: render_def Let_def)
    with False show ?thesis by (simp add: render_def Let_def render_begin_again)
  next
    case True
    show ?thesis
    proof (cases "render_line sd now ?b2")
      case (Inl e)
      with True assms have "b' = ?b2" "r = Some e" by (auto simp: render_def Let_def)
      with Inl show ?thesis by simp
    next
      case (Inr str)
      show ?thesis
      proof (cases "lastDraw b = str")
        case same: True
        with True Inr assms have "b' = ?b2" "r = None" by (auto simp: render_def Let_def)
        with True Inr same show ?thesis by (simp add: render_def Let_def render_begin_again)
      next
        case diff: False
        with True Inr assms
        have b': "b' = ?b2 \<lparr> calls := calls ?b2 @ [CursorTo 0, Write str, ClearLine (Some 1)],
                              lastDraw := str \<rparr>"
          and "r = None"
          by (auto simp: render_def Let_def)
        have again: "render_begin None b' = b'"
          by (rule render_begin_again) (simp add: b')
        have "render sd now None b' = (None, b')"
          unfolding render_def Let_def again using True Inr by (simp add: b')
        with True Inr diff b' show ?thesis by auto
      qed
    qed
  qed
qed

theorem C9_render_write_suppressed_witness:
  "render no_fractions 0 None (example_bar terminal80 '':bar'' 3) =
     (None, (example_bar terminal80 '':bar'' 3)
        \<lparr> lastDraw := ''---'', calls := [CursorTo 0, Write ''---'', ClearLine (Some 1)] \<rparr>) \<and>
   calls ((example_bar terminal80 '':bar'' 3)
        \<lparr> lastDraw := ''---'', calls := [CursorTo 0, Write ''---'', ClearLine (Some 1)] \<rparr>)
     \<noteq> calls (example_bar terminal80 '':bar'' 3) \<and>
   (\<exists>str. isTTY (stream (example_bar terminal80 '':bar'' 3)) \<and>
      render_line no_fractions 0 (render_begin None (example_bar terminal80 '':bar'' 3)) = Inr str \<and>
      str \<noteq> lastDraw (example_bar terminal80 '':bar'' 3) \<and>
      calls ((example_bar terminal80 '':bar'' 3)
        \<lparr> lastDraw := ''---'', calls := [CursorTo 0, Write ''---'', ClearLine (Some 1)] \<rparr>) =
        calls (example_bar terminal80 '':bar'' 3) @ [CursorTo 0, Write str, ClearLine (Some 1)] \<and>
      lastDraw ((example_bar terminal80 '':bar'' 3)
        \<lparr> lastDraw := ''---'', calls := [CursorTo 0, Write ''---'', ClearLine (Some 1)] \<rparr>) = str) \<and>
   render_line no_fractions 0
     (render_begin None ((example_bar terminal80 '':bar'' 3)
        \<lparr> lastDraw := ''---'', calls := [CursorTo 0, Write ''---'', ClearLine (Some 1)] \<rparr>)) =
     Inr (lastDraw ((example_bar terminal80 '':bar'' 3)
        \<lparr> lastDraw := ''---'', calls := [CursorTo 0, Write ''---'', ClearLine (Some 1)] \<rparr>)) \<and>
   render no_fractions 0 None
     ((example_bar terminal80 '':bar'' 3)
        \<lparr> lastDraw := ''---'', calls := [CursorTo 0, Write ''---'', ClearLine (Some 1)] \<rparr>) =
     (None, (example_bar terminal80 '':bar'' 3)
        \<lparr> lastDraw := ''---'', calls := [CursorTo 0, Write ''---'', ClearLine (Some 1)] \<rparr>)"
proof -
  let ?B = "example_bar terminal80 '':bar'' 3"
  let ?B' = "?B \<lparr> lastDraw := ''---'', calls := [CursorTo 0, Write ''---'', ClearLine (Some 1)] \<rparr>"
  have first: "render no_fractions 0 None ?B = (None, ?B')"
    by code_simp
  have changed: "calls ?B' \<noteq> calls ?B"
    by (simp add: example_bar_def init_bar_def)
  have same: "render_line no_fractions 0 (render_begin None ?B') = Inr (lastDraw ?B')"
    by code_simp
  note t = C9_render_write_suppressed [OF first]
  have drawn:
    "\<exists>str. isTTY (stream ?B) \<and> render_line no_fractions 0 (render_begin None ?B) = Inr str \<and>
       str \<noteq> lastDraw ?B \<and> calls ?B' = calls ?B @ [CursorTo 0, Write str, ClearLine (Some 1)] \<and>
       lastDraw ?B' = str"
    by (rule t [THEN conjunct2, THEN conjunct1, THEN mp, OF changed])
  have again: "render no_fractions 0 None ?B' = (None, ?B')"
    by (rule t [THEN conjunct2, THEN conjunct2, THEN mp, OF refl])
  from first changed drawn same again show ?thesis by (intro conjI)
qed

section \<open>Ticking and updating\<close>

lemma tick_advance_fields [simp]:
  "curr_b (tick_advance now len tk b) = js_add (curr_b b) (tick_len len)"
  "total_b (tick_advance now len tk b) = total_b b"
  "calls (tick_advance now len tk b) = calls b"
  "stream (tick_advance now len tk b) = stream b"
  "clear (tick_advance now len tk b) = clear b"
  "renderThrottleTimeout (tick_advance now len tk b) \<noteq> None"
  by (simp_all add: tick_advance_def Let_def split: option.splits)

lemma render_fields:
  assumes "render sd now tk b = (r, b')"
  shows "curr_b b' = curr_b b" "total_b b' = total_b b" "stream b' = stream b" "clear b' = clear b"
    and "calls b' = calls b \<or> (\<exists>str. calls b' = calls b @ [CursorTo 0, Write str, ClearLine (Some 1)])"
  using assms
  by (auto simp: render_def Let_def split: if_splits sum.splits)

lemma terminate_fields [simp]:
  "curr_b (terminate b) = curr_b b"
  "total_b (terminate b) = total_b b"
  "calls (terminate b) =
     calls b @ TerminateCalled #
       (if clear b \<and> isTTY (stream b) then [ClearLine None, CursorTo 0] else [Write [CHR 0x0A]])"
  by (simp_all add: terminate_def Let_def)

lemma tick_curr: "curr_b (snd (tick sd now len tk b)) = js_add (curr_b b) (tick_len len)"
proof -
  obtain r b5 where r: "render sd now None (tick_advance now len tk b) = (r, b5)"
    by (cases "render sd now None (tick_advance now len tk b)")
  from render_fields(1) [OF r] r show ?thesis
    by (cases r) (simp_all add: tick_def Let_def)
qed

lemma tick_total: "total_b (snd (tick sd now len tk b)) = total_b b"
proof -
  obtain r b5 where r: "render sd now None (tick_advance now len tk b) = (r, b5)"
    by (cases "render sd now None (tick_advance now len tk b)")
  from render_fields(2) [OF r] r show ?thesis
    by (cases r) (simp_all add: tick_def Let_def)
qed

text \<open>
  C7: \<^verbatim>\<open>update(ratio, tokens)\<close> is \<^verbatim>\<open>tick(floor(ratio * total) - current, tokens)\<close>,
  result and state alike; and \<^verbatim>\<open>update(0.5)\<close> on a bar with total 3 and current 0
  leaves current at 1.
\<close>

theorem C7_update_is_tick:
  "update sd now ratio tk b =
     tick sd now (NumArg (js_sub (js_floor (js_mul ratio (total_b b))) (curr_b b))) tk b \<and>
   (total_b b = Fin 3 \<and> curr_b b = Fin 0 \<longrightarrow>
      curr_b (snd (update sd now (Fin (1 / 2)) tk b)) = Fin 1)"
proof -
  have "\<lfloor>(3::rat) / 2\<rfloor> = 1" by code_simp
  then show ?thesis
    by (simp add: update_def Let_def tick_curr tick_len_def js_sub_def js_truthy_def)
qed

theorem C7_update_is_tick_witness:
  "total_b (example_bar terminal80 '':bar'' 3) = Fin 3 \<and>
   curr_b (example_bar terminal80 '':bar'' 3) = Fin 0 \<and>
   curr_b (snd (update no_fractions 0 (Fin (1 / 2)) None (example_bar terminal80 '':bar'' 3))) = Fin 1"
proof -
  have h: "total_b (example_bar terminal80 '':bar'' 3) = Fin 3 \<and>
           curr_b (example_bar terminal80 '':bar'' 3) = Fin 0"
    by (simp add: example_bar_def init_bar_def)
  from C7_update_is_tick [of no_fractions 0 "Fin (1/2)" None "example_bar terminal80 '':bar'' 3"] h
  show ?thesis by blast
qed

text \<open>
  C1 (as stated): after the tick that first reaches the total, no later tick enters
  \<^verbatim>\<open>terminate\<close> or invokes the callback again. It fails: \<^verbatim>\<open>tick\<close> tests
  \<^verbatim>\<open>this.curr >= this.total\<close> only, and \<^verbatim>\<open>this.complete\<close> is never read. On a
  bar of total 1, \<^verbatim>\<open>tick(1)\<close> completes it, and a second \<^verbatim>\<open>tick(1)\<close> enters
  \<^verbatim>\<open>terminate\<close> and invokes the callback a second time.
\<close>

theorem C1_counterexample:
  "curr_b (example_bar pipe_stream '':bar'' 1) = Fin 0 \<and>
   calls (example_bar pipe_stream '':bar'' 1) = [] \<and>
   curr_b completed_bar = Fin 1 \<and> total_b completed_bar = Fin 1 \<and>
   calls completed_bar = [TerminateCalled, Write [CHR 0x0A], CallbackCalled] \<and>
   tick no_fractions 1 (NumArg (Fin 1)) None completed_bar =
     (None, completed_bar
        \<lparr> curr_b := Fin 2,
          calls := [TerminateCalled, Write [CHR 0x0A], CallbackCalled,
                    TerminateCalled, Write [CHR 0x0A], CallbackCalled] \<rparr>)"
  unfolding completed_bar_def by code_simp

text \<open>
  C1 (amended): every call of \<^verbatim>\<open>tick\<close> that returns with current at or above the
  total enters \<^verbatim>\<open>terminate\<close> once and invokes the callback once, the first such
  call and every later one; a call that leaves current below the total, or whose final
  render throws, does neither.
\<close>

theorem C1_completion_every_tick:
  assumes "tick sd now len tk b = (r, b')"
  shows "calls b' = calls b @ new_calls b b' \<and>
         count_list (new_calls b b') TerminateCalled =
           (if r = None \<and> js_ge (js_add (curr_b b) (tick_len len)) (total_b b) then 1 else 0) \<and>
         count_list (new_calls b b') CallbackCalled =
           (if r = None \<and> js_ge (js_add (curr_b b) (tick_len len)) (total_b b) then 1 else 0)"
proof -
  let ?b4 = "tick_advance now len tk b"
  obtain r5 b5 where r: "render sd now None ?b4 = (r5, b5)"
    by (cases "render sd now None ?b4")
  note rf = render_fields [OF r]
  show ?thesis
  proof (cases "js_ge (js_add (curr_b b) (tick_len len)) (total_b b)")
    case False
    with assms have "b' = ?b4" "r = None" by (auto simp: tick_def Let_def)
    with False show ?thesis by (simp add: new_calls_def)
  next
    case True
    show ?thesis
    proof (cases r5)
      case (Some e)
      with True r assms have "b' = b5" "r = Some e" by (auto simp: tick_def Let_def)
      with rf(5) show ?thesis by (auto simp: new_calls_def)
    next
      case None
      with True r assms
      have b': "b' = (terminate (b5 \<lparr> complete_b := True \<rparr>))
                   \<lparr> calls := calls (terminate (b5 \<lparr> complete_b := True \<rparr>)) @ [CallbackCalled] \<rparr>"
        and "r = None"
        by (auto simp: tick_def Let_def)
      with rf(5) True show ?thesis by (auto simp: new_calls_def)
    qed
  qed
qed

theorem C1_completion_every_tick_witness:
  "count_list (new_calls completed_bar
      (snd (tick no_fractions 1 (NumArg (Fin 1)) None completed_bar))) TerminateCalled = 1 \<and>
   count_list (new_calls completed_bar
      (snd (tick no_fractions 1 (NumArg (Fin 1)) None completed_bar))) CallbackCalled = 1"
proof -
  have t: "tick no_fractions 1 (NumArg (Fin 1)) None completed_bar =
             (None, snd (tick no_fractions 1 (NumArg (Fin 1)) None completed_bar))"
    unfolding completed_bar_def by code_simp
  have g: "js_ge (js_add (curr_b completed_bar) (tick_len (NumArg (Fin 1)))) (total_b completed_bar)"
    unfolding completed_bar_def by code_simp
  from C1_completion_every_tick [OF t] g show ?thesis by simp
qed

lemma tick_len_NumArg: "tick_len (NumArg x) = (if x = NaN then Fin 1 else x)"
  by (simp add: tick_len_def js_truthy_def)

lemma js_add_not_raised: "js_lt d (Fin 0) \<Longrightarrow> \<not> js_lt c (js_add c d)"
  by (cases c; cases d) simp_all

lemma js_add_goal_not_raised:
  "js_lt g c \<Longrightarrow>
     \<not> js_lt c (js_add c (if js_sub g c = NaN then Fin 1 else js_sub g c))"
  by (cases c; cases g) (simp_all add: js_sub_def)

lemma js_add_goal_nonneg:
  "js_lt (Fin 0) c \<Longrightarrow> js_ge g c \<Longrightarrow>
     js_ge (js_add c (if js_sub g c = NaN then Fin 1 else js_sub g c)) c \<and>
     js_lt (Fin 0) (js_add c (if js_sub g c = NaN then Fin 1 else js_sub g c))"
  by (cases c; cases g) (auto simp: js_ge_def js_sub_def)

lemma js_add_nonneg:
  "js_lt (Fin 0) c \<Longrightarrow> \<not> js_lt x (Fin 0) \<Longrightarrow>
     js_ge (js_add c (if x = NaN then Fin 1 else x)) c \<and>
     js_lt (Fin 0) (js_add c (if x = NaN then Fin 1 else x))"
  by (cases c; cases x) (auto simp: js_ge_def)

text \<open>
  C6 (as stated): once current is positive, no \<^verbatim>\<open>tick\<close> or \<^verbatim>\<open>update\<close> lowers
  it. It fails: on a bar of total 3 with current 1, \<^verbatim>\<open>tick(-1)\<close> and
  \<^verbatim>\<open>update(0)\<close> both leave current at 0.
\<close>

theorem C6_counterexample:
  "curr_b ticked_once = Fin 1 \<and>
   curr_b (snd (tick no_fractions 1 (NumArg (Fin (- 1))) None ticked_once)) = Fin 0 \<and>
   curr_b (snd (update no_fractions 1 (Fin 0) None ticked_once)) = Fin 0"
  unfolding ticked_once_def by code_simp

text \<open>
  C6 (amended): a \<^verbatim>\<open>tick\<close> adds its length to current, whatever the sign of the
  length and whatever the state: 1 when the argument is absent, a tokens object or
  \<^verbatim>\<open>NaN\<close>, and the numeric argument otherwise, 0 included; an \<^verbatim>\<open>update\<close> adds
  \<^verbatim>\<open>floor(ratio * total) - current\<close> in the same way. So on a bar whose current is
  positive, a \<^verbatim>\<open>tick\<close> whose length is not negative leaves current at least as
  large as before, and still positive, and so does an \<^verbatim>\<open>update\<close> whose goal
  \<^verbatim>\<open>floor(ratio * total)\<close> is at least current. A \<^verbatim>\<open>tick\<close> of negative length
  and an \<^verbatim>\<open>update\<close> to a goal below current never raise current; where current
  and the length, or current and the goal, are integers of magnitude at most
  \<open>2^52\<close>, the tick leaves current at their sum and the update leaves it at the
  goal, both below the previous value.
\<close>

theorem C6_current_moves_with_delta:
  "curr_b (snd (tick sd now NoArg tk b)) = js_add (curr_b b) (Fin 1) \<and>
   curr_b (snd (tick sd now (TokensArg t) tk b)) = js_add (curr_b b) (Fin 1) \<and>
   curr_b (snd (tick sd now (NumArg x) tk b)) =
     js_add (curr_b b) (if x = NaN then Fin 1 else x) \<and>
   curr_b (snd (update sd now ratio tk b)) =
     js_add (curr_b b)
       (if js_sub (js_floor (js_mul ratio (total_b b))) (curr_b b) = NaN then Fin 1
        else js_sub (js_floor (js_mul ratio (total_b b))) (curr_b b)) \<and>
   (js_lt (Fin 0) (curr_b b) \<longrightarrow>
      js_ge (curr_b (snd (tick sd now NoArg tk b))) (curr_b b) \<and>
      js_ge (curr_b (snd (tick sd now (TokensArg t) tk b))) (curr_b b)) \<and>
   (js_lt (Fin 0) (curr_b b) \<and> \<not> js_lt x (Fin 0) \<longrightarrow>
      js_ge (curr_b (snd (tick sd now (NumArg x) tk b))) (curr_b b) \<and>
      js_lt (Fin 0) (curr_b (snd (tick sd now (NumArg x) tk b)))) \<and>
   (js_lt (Fin 0) (curr_b b) \<and> js_ge (js_floor (js_mul ratio (total_b b))) (curr_b b) \<longrightarrow>
      js_ge (curr_b (snd (update sd now ratio tk b))) (curr_b b) \<and>
      js_lt (Fin 0) (curr_b (snd (update sd now ratio tk b)))) \<and>
   (js_lt x (Fin 0) \<longrightarrow>
      \<not> js_lt (curr_b b) (curr_b (snd (tick sd now (NumArg x) tk b)))) \<and>
   (js_lt (js_floor (js_mul ratio (total_b b))) (curr_b b) \<longrightarrow>
      \<not> js_lt (curr_b b) (curr_b (snd (update sd now ratio tk b)))) \<and>
   (curr_b b = Fin (of_int c) \<and> x = Fin (of_int d) \<and> d < 0 \<and>
    \<bar>c\<bar> \<le> 2 ^ 52 \<and> \<bar>d\<bar> \<le> 2 ^ 52 \<longrightarrow>
      curr_b (snd (tick sd now (NumArg x) tk b)) = Fin (of_int (c + d)) \<and>
      js_lt (curr_b (snd (tick sd now (NumArg x) tk b))) (curr_b b)) \<and>
   (curr_b b = Fin (of_int c) \<and> js_floor (js_mul ratio (total_b b)) = Fin (of_int g) \<and> g < c \<and>
    \<bar>c\<bar> \<le> 2 ^ 52 \<and> \<bar>g\<bar> \<le> 2 ^ 52 \<longrightarrow>
      curr_b (snd (update sd now ratio tk b)) = Fin (of_int g) \<and>
      js_lt (curr_b (snd (update sd now ratio tk b))) (curr_b b))"
proof -
  let ?goal = "js_floor (js_mul ratio (total_b b))"
  let ?delta = "js_sub ?goal (curr_b b)"
  have t0: "curr_b (snd (tick sd now NoArg tk b)) = js_add (curr_b b) (Fin 1)"
    by (simp add: tick_curr tick_len_def)
  have t1: "curr_b (snd (tick sd now (TokensArg t) tk b)) = js_add (curr_b b) (Fin 1)"
    by (simp add: tick_curr tick_len_def)
  have t2: "curr_b (snd (tick sd now (NumArg x) tk b)) =
              js_add (curr_b b) (if x = NaN then Fin 1 else x)"
    by (simp only: tick_curr tick_len_NumArg)
  have t3: "curr_b (snd (update sd now ratio tk b)) =
              js_add (curr_b b) (if ?delta = NaN then Fin 1 else ?delta)"
    by (simp only: update_def Let_def tick_curr tick_len_NumArg)
  have m0: "js_ge (curr_b (snd (tick sd now NoArg tk b))) (curr_b b) \<and>
            js_ge (curr_b (snd (tick sd now (TokensArg t) tk b))) (curr_b b)"
    if "js_lt (Fin 0) (curr_b b)"
    unfolding t0 t1 using js_add_nonneg [OF that, of "Fin 1"] by simp
  have m2: "js_ge (curr_b (snd (tick sd now (NumArg x) tk b))) (curr_b b) \<and>
            js_lt (Fin 0) (curr_b (snd (tick sd now (NumArg x) tk b)))"
    if "js_lt (Fin 0) (curr_b b) \<and> \<not> js_lt x (Fin 0)"
    unfolding t2 using that by (intro js_add_nonneg) simp_all
  have m3: "js_ge (curr_b (snd (update sd now ratio tk b))) (curr_b b) \<and>
            js_lt (Fin 0) (curr_b (snd (update sd now ratio tk b)))"
    if "js_lt (Fin 0) (curr_b b) \<and> js_ge ?goal (curr_b b)"
    unfolding t3 using that by (intro js_add_goal_nonneg) simp_all
  have n2: "\<not> js_lt (curr_b b) (curr_b (snd (tick sd now (NumArg x) tk b)))"
    if "js_lt x (Fin 0)"
  proof -
    from that have "x \<noteq> NaN" by (cases x) simp_all
    then show ?thesis unfolding t2 using js_add_not_raised [OF that] by simp
  qed
  have n3: "\<not> js_lt (curr_b b) (curr_b (snd (update sd now ratio tk b)))"
    if "js_lt ?goal (curr_b b)"
    unfolding t3 by (rule js_add_goal_not_raised [OF that])
  have s2: "curr_b (snd (tick sd now (NumArg x) tk b)) = Fin (of_int (c + d)) \<and>
            js_lt (curr_b (snd (tick sd now (NumArg x) tk b))) (curr_b b)"
    if "curr_b b = Fin (of_int c) \<and> x = Fin (of_int d) \<and> d < 0 \<and>
        \<bar>c\<bar> \<le> 2 ^ 52 \<and> \<bar>d\<bar> \<le> 2 ^ 52"
    unfolding t2 using that by simp
  have s3: "curr_b (snd (update sd now ratio tk b)) = Fin (of_int g) \<and>
            js_lt (curr_b (snd (update sd now ratio tk b))) (curr_b b)"
    if "curr_b b = Fin (of_int c) \<and> ?goal = Fin (of_int g) \<and> g < c \<and>
        \<bar>c\<bar> \<le> 2 ^ 52 \<and> \<bar>g\<bar> \<le> 2 ^ 52"
    unfolding t3 using that by (simp add: js_sub_def)
  from t0 t1 t2 t3 m0 m2 m3 n2 n3 s2 s3 show ?thesis by blast
qed

theorem C6_current_moves_with_delta_witness:
  "js_lt (Fin 0) (curr_b ticked_once) \<and> \<not> js_lt (Fin 2) (Fin 0) \<and>
   curr_b (snd (tick no_fractions 1 (NumArg (Fin 2)) None ticked_once)) =
     js_add (curr_b ticked_once) (Fin 2) \<and>
   js_ge (curr_b (snd (tick no_fractions 1 (NumArg (Fin 2)) None ticked_once))) (curr_b ticked_once) \<and>
   js_ge (curr_b (snd (tick no_fractions 1 NoArg None ticked_once))) (curr_b ticked_once) \<and>
   js_ge (js_floor (js_mul (Fin (2 / 3)) (total_b ticked_once))) (curr_b ticked_once) \<and>
   js_ge (curr_b (snd (update no_fractions 1 (Fin (2 / 3)) None ticked_once))) (curr_b ticked_once) \<and>
   curr_b ticked_once = Fin 1 \<and> js_lt (Fin (- 1)) (Fin 0) \<and>
   \<not> js_lt (curr_b ticked_once)
       (curr_b (snd (tick no_fractions 1 (NumArg (Fin (- 1))) None ticked_once))) \<and>
   curr_b (snd (tick no_fractions 1 (NumArg (Fin (- 1))) None ticked_once)) = Fin 0 \<and>
   js_lt (curr_b (snd (tick no_fractions 1 (NumArg (Fin (- 1))) None ticked_once)))
     (curr_b ticked_once) \<and>
   js_floor (js_mul (Fin 0) (total_b ticked_once)) = Fin 0 \<and>
   \<not> js_lt (curr_b ticked_once) (curr_b (snd (update no_fractions 1 (Fin 0) None ticked_once))) \<and>
   curr_b (snd (update no_fractions 1 (Fin 0) None ticked_once)) = Fin 0 \<and>
   js_lt (curr_b (snd (update no_fractions 1 (Fin 0) None ticked_once))) (curr_b ticked_once)"
proof -
  have h: "js_lt (Fin 0) (curr_b ticked_once)"
    unfolding ticked_once_def by code_simp
  have c1: "curr_b ticked_once = Fin 1"
    unfolding ticked_once_def by code_simp
  have u: "js_ge (js_floor (js_mul (Fin (2 / 3)) (total_b ticked_once))) (curr_b ticked_once)"
    unfolding ticked_once_def by code_simp
  have g0: "js_floor (js_mul (Fin 0) (total_b ticked_once)) = Fin 0"
    unfolding ticked_once_def by code_simp
  note up = C6_current_moves_with_delta
    [where b = ticked_once and sd = no_fractions and now = 1 and tk = None
       and x = "Fin 2" and ratio = "Fin (2 / 3)" and t = "[]" and c = 1 and d = 0 and g = 0]
  note down = C6_current_moves_with_delta
    [where b = ticked_once and sd = no_fractions and now = 1 and tk = None
       and x = "Fin (- 1)" and ratio = "Fin 0" and t = "[]" and c = 1 and d = "- 1" and g = 0]
  have n2: "\<not> js_lt (Fin 2) (Fin 0)" and n1: "js_lt (Fin (- 1)) (Fin 0)" by simp_all
  have a3: "curr_b (snd (tick no_fractions 1 (NumArg (Fin 2)) None ticked_once)) =
              js_add (curr_b ticked_once) (Fin 2)"
    using up [THEN conjunct2, THEN conjunct2, THEN conjunct1] by simp
  have a6: "js_ge (curr_b (snd (tick no_fractions 1 (NumArg (Fin 2)) None ticked_once)))
              (curr_b ticked_once)"
    using up [THEN conjunct2, THEN conjunct2, THEN conjunct2, THEN conjunct2, THEN conjunct2, THEN conjunct1] h by simp
  have a5: "js_ge (curr_b (snd (tick no_fractions 1 NoArg None ticked_once))) (curr_b ticked_once)"
    using up [THEN conjunct2, THEN conjunct2, THEN conjunct2, THEN conjunct2, THEN conjunct1] h by simp
  have a7: "js_ge (curr_b (snd (update no_fractions 1 (Fin (2 / 3)) None ticked_once)))
              (curr_b ticked_once)"
    using up [THEN conjunct2, THEN conjunct2, THEN conjunct2, THEN conjunct2, THEN conjunct2, THEN conjunct2, THEN conjunct1] h u by simp
  have b8: "\<not> js_lt (curr_b ticked_once)
              (curr_b (snd (tick no_fractions 1 (NumArg (Fin (- 1))) None ticked_once)))"
    using down [THEN conjunct2, THEN conjunct2, THEN conjunct2, THEN conjunct2, THEN conjunct2, THEN conjunct2, THEN conjunct2, THEN conjunct1] by simp
  have b10: "curr_b (snd (tick no_fractions 1 (NumArg (Fin (- 1))) None ticked_once)) = Fin 0 \<and>
             js_lt (curr_b (snd (tick no_fractions 1 (NumArg (Fin (- 1))) None ticked_once)))
               (curr_b ticked_once)"
    using down [THEN conjunct2, THEN conjunct2, THEN conjunct2, THEN conjunct2, THEN conjunct2, THEN conjunct2, THEN conjunct2, THEN conjunct2, THEN conjunct2, THEN conjunct1] c1 by simp
  have b9: "\<not> js_lt (curr_b ticked_once)
              (curr_b (snd (update no_fractions 1 (Fin 0) None ticked_once)))"
    using down [THEN conjunct2, THEN conjunct2, THEN conjunct2, THEN conjunct2, THEN conjunct2, THEN conjunct2, THEN conjunct2, THEN conjunct2, THEN conjunct1] g0 c1 by simp
  have b11: "curr_b (snd (update no_fractions 1 (Fin 0) None ticked_once)) = Fin 0 \<and>
             js_lt (curr_b (snd (update no_fractions 1 (Fin 0) None ticked_once)))
               (curr_b ticked_once)"
    using down [THEN conjunct2, THEN conjunct2, THEN conjunct2, THEN conjunct2, THEN conjunct2, THEN conjunct2, THEN conjunct2, THEN conjunct2, THEN conjunct2, THEN conjunct2] g0 c1 by simp
  from h n2 a3 a6 a5 u a7 c1 n1 b8 b10 g0 b9 b11 show ?thesis by (intro conjI) simp_all
qed

section \<open>Errors of construction\<close>

lemma units_bar_constructed:
  "ProgressBar (Some terminal80) (JString '':eta:unit'')
     (ArgOptions (with_total n (empty_options \<lparr> opt_units := Some u \<rparr>))) = Inr (units_bar n u)"
  by (simp add: ProgressBar_options_ok units_bar_def empty_options_def)

text \<open>
  When the constructor throws: on \<^verbatim>\<open>undefined\<close> or \<^verbatim>\<open>null\<close> for the second
  argument, when neither \<^verbatim>\<open>options.stream\<close> nor \<^verbatim>\<open>process.stderr\<close> is there,
  and, unless the second argument is a number, when the format is not a string or
  \<^verbatim>\<open>options.total\<close> is not of type number.
\<close>

lemma ProgressBar_throws_iff:
  "isl (ProgressBar stderr f arg) \<longleftrightarrow>
     arg = ArgUndefined \<or> arg = ArgNull \<or>
     (opt_stream (arg_options arg) = None \<and> stderr = None) \<or>
     ((\<forall>n. arg \<noteq> ArgNumber n) \<and>
      ((\<forall>s. f \<noteq> JString s) \<or> (\<forall>n. opt_total (arg_options arg) \<noteq> JNumber n)))"
  by (cases arg; cases f; cases "opt_total (arg_options arg)"; cases stderr;
      cases "opt_stream (arg_options arg)")
     (simp_all add: ProgressBar_def)

text \<open>
  C5: construction throws if and only if no stream is resolvable, the format is not a
  string or the total is not a number, in the options form and in the shorthand. The
  code differs in the shorthand: line 56, \<^verbatim>\<open>if ('string' != typeof fmt) throw\<close>,
  stands in the \<^verbatim>\<open>else\<close> branch only, so \<^verbatim>\<open>new ProgressBar(undefined, 10)\<close>
  returns a bar, where \<^verbatim>\<open>new ProgressBar(undefined, { total: 10 })\<close> throws
  \<^verbatim>\<open>format required\<close>; the bar built throws a \<^verbatim>\<open>TypeError\<close> at its first
  render on a terminal.
\<close>

theorem C5_shorthand_skips_format_check:
  "ProgressBar (Some terminal80) JUndefined (ArgNumber (Fin 10)) =
     Inr (init_bar terminal80 JUndefined (empty_options \<lparr> opt_total := JNumber (Fin 10) \<rparr>) (Fin 10)) \<and>
   ProgressBar (Some terminal80) JUndefined (ArgOptions (with_total 10 empty_options)) =
     Inl (Error ''format required'') \<and>
   fst (render no_fractions 0 None
          (init_bar terminal80 JUndefined (empty_options \<lparr> opt_total := JNumber (Fin 10) \<rparr>) (Fin 10)))
     = Some TypeError"
  by code_simp

section \<open>The sorted table and the estimate\<close>

text \<open>
  On values that are not \<^verbatim>\<open>NaN\<close> the comparator of \<^verbatim>\<open>mkUnits\<close> is positive
  exactly when its first argument is the larger, so the table is ascending and its last
  entry has the largest value.
\<close>

lemma js_sub_pos_iff: "a \<noteq> NaN \<Longrightarrow> b \<noteq> NaN \<Longrightarrow> js_lt (Fin 0) (js_sub a b) = js_lt b a"
  by (cases a; cases b) (simp_all add: js_sub_def)

lemma js_not_lt_trans:
  "x \<noteq> NaN \<Longrightarrow> y \<noteq> NaN \<Longrightarrow> z \<noteq> NaN \<Longrightarrow> \<not> js_lt y x \<Longrightarrow> \<not> js_lt z y \<Longrightarrow> \<not> js_lt z x"
  by (cases x; cases y; cases z) simp_all

lemma js_lt_asym: "js_lt x y \<Longrightarrow> \<not> js_lt y x"
  by (cases x; cases y) simp_all

lemma js_lt_irrefl [simp]: "\<not> js_lt x x"
  by (cases x) simp_all

lemma set_insert_unit [simp]: "set (insert_unit a bs) = insert a (set bs)"
  by (induction bs) auto

lemma sorted_insert_unit:
  assumes "snd a \<noteq> NaN" and "\<forall>x\<in>set bs. snd x \<noteq> NaN"
    and "sorted_wrt (\<lambda>x y. \<not> js_lt (snd y) (snd x)) bs"
  shows "sorted_wrt (\<lambda>x y. \<not> js_lt (snd y) (snd x)) (insert_unit a bs)"
  using assms
proof (induction bs)
  case Nil
  then show ?case by simp
next
  case (Cons b bs)
  show ?case
  proof (cases "js_lt (snd b) (snd a)")
    case True
    with Cons show ?thesis by (auto simp: js_sub_pos_iff dest: js_lt_asym)
  next
    case False
    have "\<not> js_lt (snd y) (snd a)" if "y \<in> set bs" for y
      using that Cons.prems False js_not_lt_trans [of "snd a" "snd b" "snd y"] by auto
    with False Cons.prems show ?thesis by (auto simp: js_sub_pos_iff)
  qed
qed

lemma set_sort_units [simp]: "set (sort_units obj) = set obj"
  by (induction obj) (simp_all add: sort_units_def)

lemma sort_units_Nil [simp]: "(sort_units obj = []) = (obj = [])"
  using set_sort_units [of obj] by (metis set_empty)

lemma sorted_sort_units:
  "\<forall>x\<in>set obj. snd x \<noteq> NaN \<Longrightarrow>
     sorted_wrt (\<lambda>x y. \<not> js_lt (snd y) (snd x)) (sort_units obj)"
proof (induction obj)
  case Nil
  then show ?case by (simp add: sort_units_def)
next
  case (Cons a obj)
  then have "sorted_wrt (\<lambda>x y. \<not> js_lt (snd y) (snd x)) (insert_unit a (sort_units obj))"
    by (intro sorted_insert_unit) auto
  then show ?case by (simp add: sort_units_def)
qed

lemma sorted_wrt_last:
  "sorted_wrt P xs \<Longrightarrow> x \<in> set xs \<Longrightarrow> x = last xs \<or> P x (last xs)"
  by (induction xs) (auto split: if_splits)

lemma sort_units_last_greatest:
  assumes "\<forall>x\<in>set obj. snd x \<noteq> NaN" and "x \<in> set obj"
  shows "\<not> js_lt (snd (last (sort_units obj))) (snd x)"
  using sorted_wrt_last [OF sorted_sort_units [OF assms(1)], of x] assms(2) by auto

lemma remaining_current_zero:
  assumes "curr_b b = Fin 0"
  shows "js_isNaN (remaining elapsed (js_mul (bar_ratio b) (Fin 100)) b) \<or>
         \<not> js_isFinite (remaining elapsed (js_mul (bar_ratio b) (Fin 100)) b)"
  using assms
  by (cases "total_b b"; cases elapsed)
     (auto simp: remaining_def bar_ratio_def js_max_def js_min_def js_eq_def js_sub_def
        js_signed_inf_def js_isNaN_def js_isFinite_def)

lemma js_index_last:
  "js_index xs (int (length xs) - 1) = (if xs = [] then None else Some (last xs))"
  by (cases xs rule: rev_cases) (auto simp: js_index_def nth_append)

lemma estimate_from_degenerate:
  assumes "js_isNaN eta \<or> \<not> js_isFinite eta"
  shows "estimate_from sd (mkUnits obj) eta =
           \<lparr> est_value = None, est_eta = Some ''0.0'',
             est_suffix = (if obj = [] then None else Some (fst (last (sort_units obj)))) \<rparr>"
proof -
  have "js_index (map fst (sort_units obj)) (int (length (map snd (sort_units obj))) - 1) =
          (if obj = [] then None else Some (fst (last (sort_units obj))))"
    using js_index_last [of "map fst (sort_units obj)"] by (simp add: last_map)
  with assms show ?thesis
    by (simp add: estimate_from_def mkUnits_def Let_def)
qed

text \<open>
  C3 (as stated): on the degenerate path \<^verbatim>\<open>estimate\<close> returns
  \<^verbatim>\<open>value: "0.0"\<close> and the label of the smallest unit. It fails: with the units
  s = 1 and m = 60 and current 0 the object returned has the suffix \<^verbatim>\<open>m\<close>, the
  largest unit, and no \<^verbatim>\<open>value\<close> property (the text \<^verbatim>\<open>0.0\<close> is stored under
  the key \<^verbatim>\<open>eta\<close>, on line 215), so that \<^verbatim>\<open>:eta:unit\<close> is drawn as
  \<^verbatim>\<open>undefinedm\<close>; with the unit s = 1 alone the suffix is \<^verbatim>\<open>s\<close> and the
  \<^verbatim>\<open>value\<close> property is absent as well.
\<close>

theorem C3_counterexample:
  "estimate no_fractions (elapsed_at 0 (units_bar 3 [(''s'', Fin 1), (''m'', Fin 60)]))
      (js_mul (bar_ratio (units_bar 3 [(''s'', Fin 1), (''m'', Fin 60)])) (Fin 100))
      (units_bar 3 [(''s'', Fin 1), (''m'', Fin 60)])
     = \<lparr> est_value = None, est_eta = Some ''0.0'', est_suffix = Some ''m'' \<rparr> \<and>
   estimate no_fractions (elapsed_at 0 (units_bar 3 [(''s'', Fin 1)]))
      (js_mul (bar_ratio (units_bar 3 [(''s'', Fin 1)])) (Fin 100))
      (units_bar 3 [(''s'', Fin 1)])
     = \<lparr> est_value = None, est_eta = Some ''0.0'', est_suffix = Some ''s'' \<rparr> \<and>
   calls (snd (render no_fractions 0 None (units_bar 3 [(''s'', Fin 1), (''m'', Fin 60)])))
     = [CursorTo 0, Write ''undefinedm'', ClearLine (Some 1)]"
  by code_simp

text \<open>
  C3 (amended): on the degenerate path, that is when the remaining time is
  \<^verbatim>\<open>NaN\<close> or infinite, as it is whenever a render finds current at 0, the suffix
  \<^verbatim>\<open>estimate\<close> returns is the label of the last entry of the sorted table, the
  unit of the largest value; with the unit s = 1 alone it is \<^verbatim>\<open>s\<close>.
\<close>

theorem C3_degenerate_suffix:
  assumes "units b = mkUnits obj" and "obj \<noteq> []"
    and "js_isNaN (remaining elapsed percent b) \<or> \<not> js_isFinite (remaining elapsed percent b) \<or>
         (curr_b b = Fin 0 \<and> percent = js_mul (bar_ratio b) (Fin 100))"
  shows "est_suffix (estimate sd elapsed percent b) = Some (fst (last (sort_units obj))) \<and>
         last (sort_units obj) \<in> set obj \<and>
         ((\<forall>x\<in>set obj. snd x \<noteq> NaN) \<longrightarrow>
            (\<forall>x\<in>set obj. \<not> js_lt (snd (last (sort_units obj))) (snd x)))"
proof -
  from assms(3) have "js_isNaN (remaining elapsed percent b) \<or>
                      \<not> js_isFinite (remaining elapsed percent b)"
    using remaining_current_zero by blast
  then have "est_suffix (estimate sd elapsed percent b) = Some (fst (last (sort_units obj)))"
    using assms(1,2) by (simp add: estimate_def estimate_from_degenerate)
  moreover have "last (sort_units obj) \<in> set obj"
    using assms(2) last_in_set [of "sort_units obj"] by simp
  ultimately show ?thesis using sort_units_last_greatest by blast
qed

theorem C3_degenerate_suffix_witness:
  "est_suffix (estimate no_fractions (elapsed_at 0 (units_bar 3 [(''m'', Fin 60), (''s'', Fin 1)]))
      (js_mul (bar_ratio (units_bar 3 [(''m'', Fin 60), (''s'', Fin 1)])) (Fin 100))
      (units_bar 3 [(''m'', Fin 60), (''s'', Fin 1)])) = Some ''m'' \<and>
   \<not> js_lt (Fin 60) (Fin 1) \<and>
   est_suffix (estimate no_fractions (elapsed_at 0 (units_bar 3 [(''s'', Fin 1)]))
      (js_mul (bar_ratio (units_bar 3 [(''s'', Fin 1)])) (Fin 100))
      (units_bar 3 [(''s'', Fin 1)])) = Some ''s''"
proof -
  let ?U = "[(''m'', Fin 60), (''s'', Fin 1)]"
  let ?V = "[(''s'', Fin 1 :: jsnum)]"
  have u: "units (units_bar 3 ?U) = mkUnits ?U" "units (units_bar 3 ?V) = mkUnits ?V"
    by (simp_all add: units_bar_def init_bar_def with_total_def empty_options_def)
  have c: "curr_b (units_bar 3 ?U) = Fin 0" "curr_b (units_bar 3 ?V) = Fin 0"
    by (simp_all add: units_bar_def init_bar_def)
  have s: "last (sort_units ?U) = (''m'', Fin 60)" "last (sort_units ?V) = (''s'', Fin 1)"
    by (simp_all add: sort_units_def js_sub_def)
  have n: "\<forall>x\<in>set ?U. snd x \<noteq> NaN" by simp
  from C3_degenerate_suffix [OF u(1), where percent = "js_mul (bar_ratio (units_bar 3 ?U)) (Fin 100)"
         and elapsed = "elapsed_at 0 (units_bar 3 ?U)" and sd = no_fractions]
       C3_degenerate_suffix [OF u(2), where percent = "js_mul (bar_ratio (units_bar 3 ?V)) (Fin 100)"
         and elapsed = "elapsed_at 0 (units_bar 3 ?V)" and sd = no_fractions]
       c s n
  show ?thesis by simp
qed

text \<open>
  The two loops of \<^verbatim>\<open>estimate\<close> on a finite remaining time: the first stops at
  the largest index whose value is not above the remaining time, or at 0; the second
  divides by the value at that index and by every value below it down to index 1.
\<close>

lemma descend_spec:
  "descend eta vs i \<le> i \<and>
   (\<forall>k. descend eta vs i < k \<and> k \<le> i \<longrightarrow> js_lt eta (vs ! k)) \<and>
   (0 < descend eta vs i \<longrightarrow> \<not> js_lt eta (vs ! descend eta vs i))"
proof (induction i)
  case 0
  then show ?case by simp
next
  case (Suc i)
  show ?case
  proof (cases "js_lt eta (vs ! Suc i)")
    case True
    with Suc show ?thesis by (auto simp: le_Suc_eq)
  next
    case False
    then show ?thesis by auto
  qed
qed

lemma divide_down_foldl:
  "divide_down eta vs i = foldl js_div eta (map ((!) vs) (rev [1..<Suc i]))"
  by (induction i arbitrary: eta) simp_all

lemma descend_from_int:
  "(if 0 < int k then int (descend eta vs (nat (int k))) else int k) = int (descend eta vs k)"
  unfolding nat_int by (cases "k = 0") simp_all

lemma divide_down_from_int:
  "(if 0 < int j then divide_down eta vs (nat (int j)) else eta) = divide_down eta vs j"
  unfolding nat_int by (cases "j = 0") simp_all

lemma js_index_nat: "i < length xs \<Longrightarrow> js_index xs (int i) = Some (xs ! i)"
  by (simp add: js_index_def)

lemma estimate_from_finite:
  assumes "js_isFinite eta" and "unit_values u \<noteq> []"
  shows "estimate_from sd u eta =
           \<lparr> est_value =
               Some (toFixed sd 1
                 (divide_down eta (unit_values u)
                    (descend eta (unit_values u) (length (unit_values u) - 1)))),
             est_eta = None,
             est_suffix =
               js_index (labels u)
                 (int (descend eta (unit_values u) (length (unit_values u) - 1))) \<rparr>"
proof -
  from assms(2) have eq: "int (length (unit_values u)) - 1 = int (length (unit_values u) - 1)"
    by (cases "unit_values u") simp_all
  from assms(1) have fin: "\<not> (js_isNaN eta \<or> \<not> js_isFinite eta)"
    by (cases eta) (simp_all add: js_isFinite_def js_isNaN_def)
  show ?thesis
    unfolding estimate_from_def Let_def eq descend_from_int divide_down_from_int
    using fin by simp
qed

lemma estimate_selects_unit:
  assumes "js_isFinite eta" and "unit_values u \<noteq> []"
    and "length (labels u) = length (unit_values u)"
  shows "\<exists>i<length (unit_values u).
           est_suffix (estimate_from sd u eta) = Some (labels u ! i) \<and>
           est_value (estimate_from sd u eta) =
             Some (toFixed sd 1 (foldl js_div eta (map ((!) (unit_values u)) (rev [1..<Suc i])))) \<and>
           (\<forall>k. i < k \<and> k < length (unit_values u) \<longrightarrow> js_lt eta (unit_values u ! k)) \<and>
           (0 < i \<longrightarrow> \<not> js_lt eta (unit_values u ! i))"
proof -
  let ?vs = "unit_values u"
  let ?n = "length ?vs"
  let ?i = "descend eta ?vs (?n - 1)"
  from assms(2) have n: "0 < ?n" by simp
  have d: "?i \<le> ?n - 1" using descend_spec by blast
  with n have lt: "?i < ?n" by linarith
  have ix: "js_index (labels u) (int ?i) = Some (labels u ! ?i)"
    using lt assms(3) by (intro js_index_nat) simp
  have above: "\<forall>k. ?i < k \<and> k < ?n \<longrightarrow> js_lt eta (?vs ! k)"
    using descend_spec [of eta ?vs "?n - 1"] by auto
  have at: "0 < ?i \<longrightarrow> \<not> js_lt eta (?vs ! ?i)"
    using descend_spec by blast
  have s: "est_suffix (estimate_from sd u eta) = Some (labels u ! ?i)"
    unfolding estimate_from_finite [OF assms(1,2)] using ix by simp
  have v: "est_value (estimate_from sd u eta) =
             Some (toFixed sd 1 (foldl js_div eta (map ((!) ?vs) (rev [1..<Suc ?i]))))"
    unfolding estimate_from_finite [OF assms(1,2)] divide_down_foldl by simp
  from lt s v above at have
    "?i < ?n \<and>
     est_suffix (estimate_from sd u eta) = Some (labels u ! ?i) \<and>
     est_value (estimate_from sd u eta) =
       Some (toFixed sd 1 (foldl js_div eta (map ((!) ?vs) (rev [1..<Suc ?i])))) \<and>
     (\<forall>k. ?i < k \<and> k < ?n \<longrightarrow> js_lt eta (?vs ! k)) \<and>
     (0 < ?i \<longrightarrow> \<not> js_lt eta (?vs ! ?i))"
    by (intro conjI)
  then show ?thesis ..
qed

text \<open>
  C4: the suffix is that of the largest unit not above the remaining seconds, and the
  value is the remaining time in that unit, to one decimal. The suffix is chosen so
  (\<open>estimate_selects_unit\<close>), but the value is not: with
  \<^verbatim>\<open>ProgressBar.defaultUnits\<close> and 3600 seconds remaining the code picks
  \<^verbatim>\<open>h\<close> and then divides by 3600 and by 60, and draws \<^verbatim>\<open>0.0h\<close> for one
  hour.
\<close>

theorem C4_estimate_default_units:
  "curr_b one_hour_left = Fin 1 \<and> total_b one_hour_left = Fin 61 \<and>
   units one_hour_left =
     \<lparr> labels = [''s'', ''m'', ''h''], unit_values = [Fin 1, Fin 60, Fin 3600] \<rparr> \<and>
   elapsed_at 60000 one_hour_left = Fin 60000 \<and>
   remaining (Fin 60000) (js_mul (bar_ratio one_hour_left) (Fin 100)) one_hour_left = Fin 3600 \<and>
   estimate no_fractions (Fin 60000) (js_mul (bar_ratio one_hour_left) (Fin 100)) one_hour_left
     = \<lparr> est_value = Some ''0.0'', est_eta = None, est_suffix = Some ''h'' \<rparr> \<and>
   new_calls one_hour_left (snd (render no_fractions 60000 None one_hour_left))
     = [CursorTo 0, Write ''0.0h'', ClearLine (Some 1)] \<and>
   toFixed no_fractions 1 (js_div (Fin 3600) (Fin 3600)) = ''1.0''"
  unfolding one_hour_left_def by code_simp

section \<open>The glyphs of the bar\<close>




text \<open>
  With a configured width and a column count that are natural numbers, the effective
  width is the smaller of the width and the columns left beside the text.
\<close>

lemma bar_width_nat:
  assumes "width b = Fin (of_nat m)" and "columns (stream b) = Some (Fin (of_nat c))"
  shows "bar_width b str = Fin (of_nat (min m (c - length (js_replace '':bar'' [] str))))"
proof (cases "length (js_replace '':bar'' [] str) \<le> c")
  case True
  then show ?thesis
    using assms
    by (auto simp: bar_width_def columns_of_def js_sub_def js_max_def js_min_def Let_def
        of_nat_diff min_def)
next
  case False
  then have "(of_nat c :: rat) < of_nat (length (js_replace '':bar'' [] str))" by simp
  with False show ?thesis
    using assms
    by (auto simp: bar_width_def columns_of_def js_sub_def js_max_def js_min_def Let_def min_def)
qed








end
